theory Spec2Isabelle
  imports Complex_Main
begin

section \<open>SquareRun: the simulation core\<close>

text \<open>
  The JavaScript classes \<^verbatim>\<open>Player\<close>, \<^verbatim>\<open>Collectible\<close>, \<^verbatim>\<open>CollectibleManager\<close>,
  \<^verbatim>\<open>Camera\<close> and \<^verbatim>\<open>GameState\<close> are embedded as records with one function per method.
  A method that mutates \<^verbatim>\<open>this\<close> takes the object and returns the updated one, paired
  with the method's return value where it has one.

  Conventions.
  \<^item> A field \<^verbatim>\<open>f\<close> of a class is written with the class's prefix, since several classes
    share field names: \<open>pl_\<close> (Player), \<open>pt_\<close> (explosion particle), \<open>pf_\<close> (platform),
    \<open>co_\<close> (Collectible), \<open>fx_\<close> (collection effect), \<open>cm_\<close> (CollectibleManager),
    \<open>cam_\<close> (Camera), \<open>gs_\<close> (GameState), \<open>st_\<close> (its statistics). A method \<^verbatim>\<open>m\<close> of a
    class \<^verbatim>\<open>C\<close> is the function \<open>C_m\<close>.
  \<^item> JavaScript numbers that hold coordinates, velocities and timers are exact reals:
    the definitions compute without rounding, overflow or NaN. The camera's update, where
    rounding decides whether the target is passed, is given a second time in binary64
    arithmetic. Counters and platform ids are integers.
  \<^item> \<^verbatim>\<open>Math.random()\<close> is a parameter \<open>rnd\<close>, the sequence of draws; \<^verbatim>\<open>performance.now()\<close>
    is a parameter \<open>now\<close>.
\<close>

subsection \<open>Player (player.js)\<close>

record Platform =
  pf_x :: real
  pf_y :: real
  pf_width :: real
  pf_height :: real
  pf_id :: int

record Particle =
  pt_x :: real
  pt_y :: real
  pt_width :: real
  pt_height :: real
  pt_dx :: real
  pt_dy :: real
  pt_angle :: real
  pt_angleV :: real
  pt_life :: real

record Player =
  pl_x :: real
  pl_y :: real
  pl_width :: real
  pl_height :: real
  pl_dx :: real
  pl_dy :: real
  pl_gravity :: real
  pl_jumpForce :: real
  pl_maxSpeed :: real
  pl_rotationSpeed :: real
  pl_onGround :: bool
  pl_wasOnGround :: bool
  pl_angle :: real
  pl_flashTime :: real
  pl_isDead :: bool
  pl_isRespawning :: bool
  pl_particles :: "Particle list"
  pl_lastSafePlatform :: "Platform option"
  pl_respawnX :: real
  pl_respawnY :: real
  pl_consecutiveDeaths :: int
  pl_lastDeathPlatformId :: int

text \<open>The constructor.\<close>

definition Player_new :: Player where
  "Player_new =
     \<lparr> pl_x = 150, pl_y = 100, pl_width = 40, pl_height = 40, pl_dx = 300, pl_dy = 0,
       pl_gravity = 1800, pl_jumpForce = - 700, pl_maxSpeed = 300, pl_rotationSpeed = 6,
       pl_onGround = False, pl_wasOnGround = False, pl_angle = 0, pl_flashTime = 0,
       pl_isDead = False, pl_isRespawning = False,
       pl_particles = [], pl_lastSafePlatform = None,
       pl_respawnX = 150, pl_respawnY = 100,
       pl_consecutiveDeaths = 0, pl_lastDeathPlatformId = - 1 \<rparr>"

text \<open>
  \<^verbatim>\<open>updateParticles(dt)\<close>: every particle is advanced in place, \<^verbatim>\<open>y\<close> with the velocity it
  had before gravity is added, then the particles whose life is not positive are dropped.
\<close>

definition Particle_step :: "real \<Rightarrow> real \<Rightarrow> Particle \<Rightarrow> Particle" where
  "Particle_step gravity dt particle =
     particle\<lparr> pt_x := pt_x particle + pt_dx particle * dt,
               pt_y := pt_y particle + pt_dy particle * dt,
               pt_dy := pt_dy particle + gravity * 0.8 * dt,
               pt_angle := pt_angle particle + pt_angleV particle * dt,
               pt_life := pt_life particle - dt \<rparr>"

definition Player_updateParticles :: "real \<Rightarrow> Player \<Rightarrow> Player" where
  "Player_updateParticles dt p =
     p\<lparr> pl_particles :=
          filter (\<lambda>particle. pt_life particle > 0)
                 (map (Particle_step (pl_gravity p) dt) (pl_particles p)) \<rparr>"

text \<open>\<^verbatim>\<open>Math.round\<close> rounds to the nearest integer, a half upwards.\<close>

definition Math_round :: "real \<Rightarrow> real" where
  "Math_round v = of_int \<lfloor>v + 1 / 2\<rfloor>"

text \<open>\<^verbatim>\<open>update(dt)\<close>, statement by statement.\<close>

definition Player_update :: "real \<Rightarrow> Player \<Rightarrow> Player" where
  "Player_update dt p =
     (if pl_isDead p \<or> pl_isRespawning p then Player_updateParticles dt p
      else
        let p1 = p\<lparr> pl_dy := pl_dy p + pl_gravity p * dt \<rparr>;
            p2 = p1\<lparr> pl_x := pl_x p1 + pl_dx p1 * dt \<rparr>;
            p3 = p2\<lparr> pl_y := pl_y p2 + pl_dy p2 * dt \<rparr>;
            p4 = (if pl_onGround p3
                  then p3\<lparr> pl_angle := Math_round (pl_angle p3 / (pi / 2)) * (pi / 2) \<rparr>
                  else p3\<lparr> pl_angle := pl_angle p3 + pl_rotationSpeed p3 * dt \<rparr>);
            p5 = (if pl_flashTime p4 > 0
                  then p4\<lparr> pl_flashTime := pl_flashTime p4 - dt * 60 \<rparr>
                  else p4);
            p6 = p5\<lparr> pl_wasOnGround := pl_onGround p5 \<rparr>;
            p7 = p6\<lparr> pl_onGround := False \<rparr>
        in Player_updateParticles dt p7)"

text \<open>\<^verbatim>\<open>jump()\<close>: the returned flag and the player afterwards.\<close>

definition Player_jump :: "Player \<Rightarrow> bool \<times> Player" where
  "Player_jump p =
     (if pl_onGround p \<and> \<not> pl_isDead p \<and> \<not> pl_isRespawning p
      then (True, p\<lparr> pl_dy := pl_jumpForce p, pl_onGround := False \<rparr>)
      else (False, p))"

text \<open>
  \<^verbatim>\<open>createExplosion()\<close>: the particle list is replaced by a 3 x 3 grid, pushed with \<open>i\<close> as
  the outer and \<open>j\<close> as the inner loop variable. The particle of cell \<open>(i, j)\<close> takes three
  draws of \<^verbatim>\<open>Math.random()\<close> in the order \<^verbatim>\<open>dx\<close>, \<^verbatim>\<open>dy\<close>, \<^verbatim>\<open>angleV\<close>, so its first draw is
  number \<open>3 * (3 * i + j)\<close> of the call.
\<close>

definition explosionParticle :: "(nat \<Rightarrow> real) \<Rightarrow> Player \<Rightarrow> nat \<Rightarrow> nat \<Rightarrow> Particle" where
  "explosionParticle rnd p i j =
     (let particleSize = pl_width p / 3; k = 3 * (3 * i + j) in
      \<lparr> pt_x = pl_x p + real i * particleSize,
        pt_y = pl_y p + real j * particleSize,
        pt_width = particleSize,
        pt_height = particleSize,
        pt_dx = (real i - 1) * 200 + (rnd k - 0.5) * 150,
        pt_dy = (real j - 1) * 200 + (rnd (k + 1) - 0.5) * 150 - 250,
        pt_angle = 0,
        pt_angleV = (rnd (k + 2) - 0.5) * 20,
        pt_life = 1 \<rparr>)"

definition Player_createExplosion :: "(nat \<Rightarrow> real) \<Rightarrow> Player \<Rightarrow> Player" where
  "Player_createExplosion rnd p =
     p\<lparr> pl_particles :=
          concat (map (\<lambda>i. map (\<lambda>j. explosionParticle rnd p i j) [0, 1, 2]) [0, 1, 2]) \<rparr>"

text \<open>
  \<^verbatim>\<open>die()\<close>. \<^verbatim>\<open>this.lastSafePlatform && ...\<close> is the test that a platform is recorded;
  \<^verbatim>\<open>consecutiveDeaths++\<close> adds one.
\<close>

definition Player_die :: "(nat \<Rightarrow> real) \<Rightarrow> Player \<Rightarrow> Player" where
  "Player_die rnd p =
     (if pl_isDead p then p
      else
        let p1 = p\<lparr> pl_isDead := True \<rparr>;
            p2 = Player_createExplosion rnd p1
        in (case pl_lastSafePlatform p2 of
              Some platform \<Rightarrow>
                if pf_id platform = pl_lastDeathPlatformId p2
                then p2\<lparr> pl_consecutiveDeaths := pl_consecutiveDeaths p2 + 1 \<rparr>
                else p2\<lparr> pl_consecutiveDeaths := 1, pl_lastDeathPlatformId := pf_id platform \<rparr>
            | None \<Rightarrow>
                p2\<lparr> pl_consecutiveDeaths := 1, pl_lastDeathPlatformId := - 1 \<rparr>))"

text \<open>
  \<^verbatim>\<open>handlePlatformCollision(platform)\<close>: landing, then the bump from below, then the side
  contact with its ledge grab and its lethal branch, then no collision.
\<close>

definition Player_handlePlatformCollision ::
    "(nat \<Rightarrow> real) \<Rightarrow> Platform \<Rightarrow> Player \<Rightarrow> bool \<times> Player" where
  "Player_handlePlatformCollision rnd platform p =
     (if pl_dy p \<ge> 0 \<and> pl_y p + pl_height p \<ge> pf_y platform \<and>
         pl_y p + pl_height p < pf_y platform + pf_height platform
      then (True, p\<lparr> pl_y := pf_y platform - pl_height p, pl_dy := 0,
                      pl_onGround := True, pl_lastSafePlatform := Some platform \<rparr>)
      else if pl_dy p < 0 \<and> pl_y p < pf_y platform + pf_height platform \<and>
              pl_y p > pf_y platform
      then (True, p\<lparr> pl_y := pf_y platform + pf_height platform, pl_dy := 0 \<rparr>)
      else if pl_x p + pl_width p > pf_x platform \<and> pl_x p < pf_x platform + pf_width platform
      then
        (if pl_dx p > 0 \<and> pl_x p + pl_width p \<ge> pf_x platform \<and>
            pl_y p + pl_height p > pf_y platform \<and>
            pl_y p < pf_y platform + pf_height platform
         then
           (let ledgeHeight = (pl_y p + pl_height p) - pf_y platform in
            if ledgeHeight > 0 \<and> ledgeHeight < pl_height p / 2 \<and> pl_dy p \<ge> 0
            then (True, p\<lparr> pl_y := pf_y platform - pl_height p, pl_dy := - 120,
                            pl_onGround := True, pl_lastSafePlatform := Some platform \<rparr>)
            else (False, Player_die rnd p))
         else (False, p))
      else (False, p))"


subsection \<open>Collectible (collectibles.js)\<close>

text \<open>
  An effect descriptor is an object literal, kept as the list of its properties in the
  order they are written.
\<close>

datatype JSValue = Num real | Flag bool | Str string

type_synonym EffectDescriptor = "(string \<times> JSValue) list"

record TypeConfig =
  tc_name :: string
  tc_size :: real
  tc_value :: real
  tc_color :: string
  tc_rotationSpeed :: real
  tc_effects :: "EffectDescriptor list"

record Collectible =
  co_x :: real
  co_y :: real
  co_active :: bool
  co_collected :: bool
  co_collectionTime :: real
  co_type :: string
  co_size :: real
  co_value :: real
  co_animationFrame :: real
  co_animationSpeed :: real
  co_bobOffset :: real
  co_bobSpeed :: real
  co_rotation :: real
  co_rotationSpeed :: real
  co_color :: string
  co_glowIntensity :: real
  co_pulseEffect :: real
  co_effects :: "EffectDescriptor list"
  co_name :: string

text \<open>
  The catalogue \<^verbatim>\<open>typeConfigs\<close> of \<^verbatim>\<open>initializeType\<close>, as the list of its entries, the
  entry \<^verbatim>\<open>typeConfigs.pixel\<close> first. A type tag is looked up among these ten keys; names
  that a JavaScript object inherits from its prototype are not type tags of the model.
\<close>

definition pixelConfig :: TypeConfig where
  "pixelConfig =
     \<lparr> tc_name = ''Pixel'', tc_size = 8, tc_value = 10, tc_color = ''#f1c40f'',
       tc_rotationSpeed = 0, tc_effects = [] \<rparr>"

definition typeConfigs :: "(string \<times> TypeConfig) list" where
  "typeConfigs =
     [ (''pixel'', pixelConfig),
       (''gem'',
        \<lparr> tc_name = ''Gem'', tc_size = 12, tc_value = 50, tc_color = ''#e74c3c'',
          tc_rotationSpeed = 2, tc_effects = [] \<rparr>),
       (''star'',
        \<lparr> tc_name = ''Star'', tc_size = 15, tc_value = 100, tc_color = ''#f39c12'',
          tc_rotationSpeed = 3, tc_effects = [] \<rparr>),
       (''powerUp'',
        \<lparr> tc_name = ''Power-Up'', tc_size = 14, tc_value = 25, tc_color = ''#9b59b6'',
          tc_rotationSpeed = 1.5,
          tc_effects = [[(''type'', Str ''powerUp''), (''speedBoost'', Num 1.5),
                         (''duration'', Num 5000)]] \<rparr>),
       (''formChange'',
        \<lparr> tc_name = ''Form Change'', tc_size = 16, tc_value = 75, tc_color = ''#3498db'',
          tc_rotationSpeed = 2.5,
          tc_effects = [[(''type'', Str ''formChange''), (''form'', Str ''circle'')]] \<rparr>),
       (''health'',
        \<lparr> tc_name = ''Health'', tc_size = 10, tc_value = 30, tc_color = ''#2ecc71'',
          tc_rotationSpeed = 1,
          tc_effects = [[(''type'', Str ''powerUp''), (''healthBoost'', Num 1),
                         (''duration'', Num 0)]] \<rparr>),
       (''speedBoost'',
        \<lparr> tc_name = ''Speed Boost'', tc_size = 11, tc_value = 40, tc_color = ''#e67e22'',
          tc_rotationSpeed = 2,
          tc_effects = [[(''type'', Str ''powerUp''), (''speedBoost'', Num 2.0),
                         (''duration'', Num 8000)]] \<rparr>),
       (''jumpBoost'',
        \<lparr> tc_name = ''Jump Boost'', tc_size = 11, tc_value = 35, tc_color = ''#8e44ad'',
          tc_rotationSpeed = 1.8,
          tc_effects = [[(''type'', Str ''powerUp''), (''jumpBoost'', Num 1.8),
                         (''duration'', Num 6000)]] \<rparr>),
       (''invincibility'',
        \<lparr> tc_name = ''Invincibility'', tc_size = 13, tc_value = 60, tc_color = ''#f1c40f'',
          tc_rotationSpeed = 4,
          tc_effects = [[(''type'', Str ''powerUp''), (''invincible'', Flag True),
                         (''duration'', Num 4000)]] \<rparr>),
       (''magnet'',
        \<lparr> tc_name = ''Magnet'', tc_size = 12, tc_value = 45, tc_color = ''#34495e'',
          tc_rotationSpeed = 2.2,
          tc_effects = [[(''type'', Str ''powerUp''), (''magnet'', Flag True),
                         (''duration'', Num 7000)]] \<rparr>) ]"

text \<open>\<^verbatim>\<open>initializeType(type)\<close>: \<^verbatim>\<open>typeConfigs[type] || typeConfigs.pixel\<close>, then the copies.\<close>

definition Collectible_initializeType :: "string \<Rightarrow> Collectible \<Rightarrow> Collectible" where
  "Collectible_initializeType type c =
     (let config = (case map_of typeConfigs type of Some cfg \<Rightarrow> cfg | None \<Rightarrow> pixelConfig);
          c1 = c\<lparr> co_name := tc_name config, co_size := tc_size config,
                   co_value := tc_value config, co_color := tc_color config,
                   co_rotationSpeed := tc_rotationSpeed config,
                   co_effects := tc_effects config \<rparr>
      in c1\<lparr> co_animationSpeed := 0.1 + co_rotationSpeed c1 * 0.05 \<rparr>)"

text \<open>The constructor; \<^verbatim>\<open>name\<close> has no value before \<^verbatim>\<open>initializeType\<close> assigns it.\<close>

definition Collectible_new :: "real \<Rightarrow> real \<Rightarrow> string \<Rightarrow> Collectible" where
  "Collectible_new x y type =
     Collectible_initializeType type
       \<lparr> co_x = x, co_y = y, co_active = True, co_collected = False, co_collectionTime = 0,
         co_type = type, co_size = 8, co_value = 10,
         co_animationFrame = 0, co_animationSpeed = 0.1, co_bobOffset = 0, co_bobSpeed = 2,
         co_rotation = 0, co_rotationSpeed = 0,
         co_color = ''#f1c40f'', co_glowIntensity = 0, co_pulseEffect = 0,
         co_effects = [], co_name = [] \<rparr>"

definition Collectible_update :: "real \<Rightarrow> Collectible \<Rightarrow> Collectible" where
  "Collectible_update dt c =
     (if \<not> co_active c then c
      else
        let c1 = c\<lparr> co_animationFrame := co_animationFrame c + dt * co_animationSpeed c \<rparr>;
            c2 = c1\<lparr> co_bobOffset := sin (co_animationFrame c1 * co_bobSpeed c1) * 2 \<rparr>;
            c3 = c2\<lparr> co_rotation := co_rotation c2 + co_rotationSpeed c2 * dt \<rparr>;
            c4 = c3\<lparr> co_glowIntensity := 0.5 + sin (co_animationFrame c3 * 3) * 0.3 \<rparr>
        in if co_pulseEffect c4 > 0
           then c4\<lparr> co_pulseEffect := co_pulseEffect c4 - dt * 3 \<rparr>
           else c4)"

text \<open>\<^verbatim>\<open>collect()\<close>: the returned flag and the collectible afterwards.\<close>

definition Collectible_collect :: "real \<Rightarrow> Collectible \<Rightarrow> bool \<times> Collectible" where
  "Collectible_collect now c =
     (if \<not> co_active c \<or> co_collected c then (False, c)
      else (True, c\<lparr> co_active := False, co_collected := True,
                      co_collectionTime := now, co_pulseEffect := 1 \<rparr>))"

text \<open>
  \<^verbatim>\<open>Player.handleCollectibleCollision(collectible)\<close> writes to both objects: the returned
  flag, the collectible afterwards, the player afterwards.
\<close>

definition Math_hypot :: "real \<Rightarrow> real \<Rightarrow> real" where
  "Math_hypot a b = sqrt (a * a + b * b)"

definition Player_handleCollectibleCollision ::
    "Collectible \<Rightarrow> Player \<Rightarrow> bool \<times> Collectible \<times> Player" where
  "Player_handleCollectibleCollision collectible p =
     (if \<not> co_active collectible then (False, collectible, p)
      else
        let dist = Math_hypot (pl_x p + pl_width p / 2 - co_x collectible)
                              (pl_y p + pl_height p / 2 - co_y collectible)
        in if dist < pl_width p / 2 + co_size collectible
           then (True, collectible\<lparr> co_active := False \<rparr>, p\<lparr> pl_flashTime := 10 \<rparr>)
           else (False, collectible, p))"

subsection \<open>CollectibleManager (collectibles.js)\<close>

record CollectionEffect =
  fx_x :: real
  fx_y :: real
  fx_value :: real
  fx_life :: real
  fx_type :: string

record CollectibleManager =
  cm_collectibles :: "Collectible list"
  cm_collectedCount :: int
  cm_totalCount :: int
  cm_collectionEffects :: "CollectionEffect list"

definition CollectibleManager_new :: CollectibleManager where
  "CollectibleManager_new =
     \<lparr> cm_collectibles = [], cm_collectedCount = 0, cm_totalCount = 0,
       cm_collectionEffects = [] \<rparr>"

definition CollectibleManager_addCollectible ::
    "real \<Rightarrow> real \<Rightarrow> string \<Rightarrow> CollectibleManager \<Rightarrow> Collectible \<times> CollectibleManager" where
  "CollectibleManager_addCollectible x y type m =
     (let collectible = Collectible_new x y type in
      (collectible, m\<lparr> cm_collectibles := cm_collectibles m @ [collectible],
                        cm_totalCount := cm_totalCount m + 1 \<rparr>))"

fun CollectibleManager_addCollectibles ::
    "(real \<times> real) list \<Rightarrow> string \<Rightarrow> CollectibleManager \<Rightarrow> CollectibleManager" where
  "CollectibleManager_addCollectibles [] type m = m"
| "CollectibleManager_addCollectibles (pos # positions) type m =
     CollectibleManager_addCollectibles positions type
       (snd (CollectibleManager_addCollectible (fst pos) (snd pos) type m))"

text \<open>
  \<^verbatim>\<open>update(dt)\<close>: the filter's callback lowers the life of every effect and keeps those
  whose life is still positive.
\<close>

definition CollectibleManager_update :: "real \<Rightarrow> CollectibleManager \<Rightarrow> CollectibleManager" where
  "CollectibleManager_update dt m =
     (let m1 = m\<lparr> cm_collectibles := map (Collectible_update dt) (cm_collectibles m) \<rparr> in
      m1\<lparr> cm_collectionEffects :=
            filter (\<lambda>effect. fx_life effect > 0)
                   (map (\<lambda>effect. effect\<lparr> fx_life := fx_life effect - dt \<rparr>)
                        (cm_collectionEffects m1)) \<rparr>)"

text \<open>
  \<^verbatim>\<open>collectItem(collectible)\<close> takes any collectible object and writes to it and to the
  manager's counters and effects: the collectible afterwards and the manager afterwards.
\<close>

definition CollectibleManager_collectItem ::
    "real \<Rightarrow> Collectible \<Rightarrow> CollectibleManager \<Rightarrow> Collectible \<times> CollectibleManager" where
  "CollectibleManager_collectItem now collectible m =
     (case Collectible_collect now collectible of
        (True, collectible') \<Rightarrow>
          (collectible',
           m\<lparr> cm_collectedCount := cm_collectedCount m + 1,
              cm_collectionEffects := cm_collectionEffects m @
                [\<lparr> fx_x = co_x collectible', fx_y = co_y collectible',
                   fx_value = co_value collectible', fx_life = 1.0,
                   fx_type = co_type collectible' \<rparr>] \<rparr>)
      | (False, collectible') \<Rightarrow> (collectible', m))"

text \<open>
  The body of \<^verbatim>\<open>checkPlayerCollision\<close>'s \<^verbatim>\<open>forEach\<close>, over the collectibles still to visit.
  The objects of the array are written in place, so the loop returns them as they are
  afterwards, with the player and the manager's counters and effects.
\<close>

fun checkPlayerCollision_forEach ::
    "real \<Rightarrow> Collectible list \<Rightarrow> Player \<Rightarrow> CollectibleManager \<Rightarrow>
     Collectible list \<times> Player \<times> CollectibleManager" where
  "checkPlayerCollision_forEach now [] player m = ([], player, m)"
| "checkPlayerCollision_forEach now (collectible # rest) player m =
     (if co_active collectible
      then
        (case Player_handleCollectibleCollision collectible player of
           (hit, c1, player1) \<Rightarrow>
             if hit
             then
               (case CollectibleManager_collectItem now c1 m of
                  (c2, m1) \<Rightarrow>
                    (case checkPlayerCollision_forEach now rest player1 m1 of
                       (rest', player', m') \<Rightarrow> (c2 # rest', player', m')))
             else
               (case checkPlayerCollision_forEach now rest player1 m of
                  (rest', player', m') \<Rightarrow> (c1 # rest', player', m')))
      else
        (case checkPlayerCollision_forEach now rest player m of
           (rest', player', m') \<Rightarrow> (collectible # rest', player', m')))"

definition CollectibleManager_checkPlayerCollision ::
    "real \<Rightarrow> Player \<Rightarrow> CollectibleManager \<Rightarrow> Player \<times> CollectibleManager" where
  "CollectibleManager_checkPlayerCollision now player m =
     (case checkPlayerCollision_forEach now (cm_collectibles m) player m of
        (collectibles', player', m') \<Rightarrow> (player', m'\<lparr> cm_collectibles := collectibles' \<rparr>))"

record CollectionProgress =
  cp_collected :: int
  cp_total :: int
  cp_percentage :: real

definition CollectibleManager_getCollectionProgress ::
    "CollectibleManager \<Rightarrow> CollectionProgress" where
  "CollectibleManager_getCollectionProgress m =
     \<lparr> cp_collected = cm_collectedCount m,
       cp_total = cm_totalCount m,
       cp_percentage =
         (if cm_totalCount m > 0
          then (of_int (cm_collectedCount m) / of_int (cm_totalCount m)) * 100
          else 0) \<rparr>"

definition CollectibleManager_reset :: "CollectibleManager \<Rightarrow> CollectibleManager" where
  "CollectibleManager_reset m =
     m\<lparr> cm_collectibles :=
          map (\<lambda>collectible. collectible\<lparr> co_active := True, co_collected := False \<rparr>)
              (cm_collectibles m),
        cm_collectedCount := 0,
        cm_collectionEffects := [] \<rparr>"

definition CollectibleManager_clear :: "CollectibleManager \<Rightarrow> CollectibleManager" where
  "CollectibleManager_clear m =
     m\<lparr> cm_collectibles := [], cm_collectedCount := 0, cm_totalCount := 0,
        cm_collectionEffects := [] \<rparr>"


text \<open>
  A caller reaches a collectible through a reference. The manager's own collectibles are
  those of its array, named by their position; any other \<^verbatim>\<open>Collectible\<close> object is foreign
  to the manager. A position outside the array names no object, and no call is made.
\<close>

datatype CollectibleRef = Owned nat | Foreign Collectible

datatype ManagerCall =
    AddCollectible real real string
  | AddCollectibles "(real \<times> real) list" string
  | Update real
  | CheckPlayerCollision real Player
  | CollectItem real CollectibleRef
  | Reset
  | Clear

fun ManagerCall_apply :: "ManagerCall \<Rightarrow> CollectibleManager \<Rightarrow> CollectibleManager" where
  "ManagerCall_apply (AddCollectible x y type) m =
     snd (CollectibleManager_addCollectible x y type m)"
| "ManagerCall_apply (AddCollectibles positions type) m =
     CollectibleManager_addCollectibles positions type m"
| "ManagerCall_apply (Update dt) m = CollectibleManager_update dt m"
| "ManagerCall_apply (CheckPlayerCollision now player) m =
     snd (CollectibleManager_checkPlayerCollision now player m)"
| "ManagerCall_apply (CollectItem now (Owned i)) m =
     (if i < length (cm_collectibles m)
      then (case CollectibleManager_collectItem now (cm_collectibles m ! i) m of
              (collectible', m') \<Rightarrow>
                m'\<lparr> cm_collectibles := (cm_collectibles m')[i := collectible'] \<rparr>)
      else m)"
| "ManagerCall_apply (CollectItem now (Foreign collectible)) m =
     snd (CollectibleManager_collectItem now collectible m)"
| "ManagerCall_apply Reset m = CollectibleManager_reset m"
| "ManagerCall_apply Clear m = CollectibleManager_clear m"

fun ManagerCall_run :: "ManagerCall list \<Rightarrow> CollectibleManager \<Rightarrow> CollectibleManager" where
  "ManagerCall_run [] m = m"
| "ManagerCall_run (call # calls) m = ManagerCall_run calls (ManagerCall_apply call m)"

fun ownedCall :: "ManagerCall \<Rightarrow> bool" where
  "ownedCall (CollectItem now (Foreign collectible)) = False"
| "ownedCall call = True"

text \<open>The counters agree with the array.\<close>

definition countsAgree :: "CollectibleManager \<Rightarrow> bool" where
  "countsAgree m \<longleftrightarrow>
     cm_collectedCount m = int (length (filter co_collected (cm_collectibles m))) \<and>
     cm_totalCount m = int (length (cm_collectibles m))"

subsection \<open>Camera (camera.js)\<close>

record Camera =
  cam_x :: real
  cam_y :: real
  cam_targetX :: real
  cam_targetY :: real
  cam_smoothness :: real
  cam_offsetX :: real
  cam_offsetY :: real
  cam_width :: real
  cam_height :: real
  cam_renderBuffer :: real
  cam_parallaxLayers :: "(string \<times> real) list"





definition Camera_setSmoothness :: "real \<Rightarrow> Camera \<Rightarrow> Camera" where
  "Camera_setSmoothness smoothness c = c\<lparr> cam_smoothness := max 0 (min 1 smoothness) \<rparr>"

subsection \<open>Camera in binary64 arithmetic\<close>







subsection \<open>GameState (game-state.js)\<close>

record Stats =
  st_score :: int
  st_currentLevel :: int
  st_totalDeaths :: int
  st_levelDeaths :: int
  st_pixelsCollected :: int
  st_totalPixelsInLevel :: int
  st_levelStartTime :: real
  st_consecutiveDeaths :: int

record GameState =
  gs_currentState :: string
  gs_stats :: Stats
  gs_timeScale :: real
  gs_timeScaleTarget :: real

text \<open>
  The table \<^verbatim>\<open>this.states\<close>, which the constructor fills and no method writes: the names
  of the enumeration with their values.
\<close>

definition states :: "(string \<times> string) list" where
  "states =
     [ (''MAIN_MENU'', ''mainMenu''),
       (''PLAYING'', ''playing''),
       (''PAUSED'', ''paused''),
       (''DEAD'', ''dead''),
       (''LEVEL_COMPLETE'', ''levelComplete''),
       (''LEVEL_READY'', ''levelReady''),
       (''ENTERING_PORTAL'', ''enteringPortal''),
       (''EXITING'', ''exiting'') ]"

definition GameState_new :: GameState where
  "GameState_new =
     \<lparr> gs_currentState = ''mainMenu'',
       gs_stats = \<lparr> st_score = 0, st_currentLevel = 1, st_totalDeaths = 0,
                    st_levelDeaths = 0, st_pixelsCollected = 0,
                    st_totalPixelsInLevel = 0, st_levelStartTime = 0,
                    st_consecutiveDeaths = 0 \<rparr>,
       gs_timeScale = 1.0, gs_timeScaleTarget = 1.0 \<rparr>"

text \<open>
  \<^verbatim>\<open>String.prototype.toUpperCase\<close> on ASCII text: the letters a to z are replaced, every
  other character is kept. Characters outside ASCII are not part of the model.
\<close>

definition letterPairs :: "(char \<times> char) list" where
  "letterPairs = zip ''abcdefghijklmnopqrstuvwxyz'' ''ABCDEFGHIJKLMNOPQRSTUVWXYZ''"

definition toUpperCase_char :: "char \<Rightarrow> char" where
  "toUpperCase_char ch = (case map_of letterPairs ch of Some up \<Rightarrow> up | None \<Rightarrow> ch)"

definition toUpperCase :: "string \<Rightarrow> string" where
  "toUpperCase str = map toUpperCase_char str"

text \<open>
  \<^verbatim>\<open>handleStateChange()\<close>: the \<^verbatim>\<open>switch\<close> compares the current state with the values of
  the table, in the order of its \<^verbatim>\<open>case\<close> labels; a state that matches none does nothing.
\<close>

definition GameState_handleStateChange :: "real \<Rightarrow> GameState \<Rightarrow> GameState" where
  "GameState_handleStateChange now gs =
     (if gs_currentState gs = ''playing'' then gs\<lparr> gs_timeScaleTarget := 1.0 \<rparr>
      else if gs_currentState gs = ''paused'' then gs\<lparr> gs_timeScaleTarget := 0.0 \<rparr>
      else if gs_currentState gs = ''dead''
      then
        (let s1 = (gs_stats gs)\<lparr> st_levelDeaths := st_levelDeaths (gs_stats gs) + 1 \<rparr>;
             s2 = s1\<lparr> st_totalDeaths := st_totalDeaths s1 + 1 \<rparr>;
             s3 = s2\<lparr> st_consecutiveDeaths := st_consecutiveDeaths s2 + 1 \<rparr>
         in gs\<lparr> gs_stats := s3 \<rparr>)
      else if gs_currentState gs = ''levelComplete'' then gs\<lparr> gs_timeScaleTarget := 0.0 \<rparr>
      else if gs_currentState gs = ''levelReady''
      then (let gs1 = gs\<lparr> gs_timeScaleTarget := 1.0 \<rparr>
            in gs1\<lparr> gs_stats := (gs_stats gs1)\<lparr> st_levelStartTime := now \<rparr> \<rparr>)
      else gs)"

text \<open>
  \<^verbatim>\<open>setGameState(state)\<close>: an entry of the table is truthy, being a non-empty string, so
  the first branch is taken exactly when the upper-cased argument is a name of the table.
\<close>

definition GameState_setGameState :: "real \<Rightarrow> string \<Rightarrow> GameState \<Rightarrow> GameState" where
  "GameState_setGameState now state gs =
     (let gs1 = (case map_of states (toUpperCase state) of
                   Some v \<Rightarrow> gs\<lparr> gs_currentState := v \<rparr>
                 | None \<Rightarrow> gs\<lparr> gs_currentState := state \<rparr>)
      in GameState_handleStateChange now gs1)"


text \<open>
  A letter-case variant of a string has the same characters up to the case of its
  letters. The relation is stated on the letters themselves, not through
  \<^verbatim>\<open>toUpperCase\<close>.
\<close>

definition sameLetter :: "char \<Rightarrow> char \<Rightarrow> bool" where
  "sameLetter a b \<longleftrightarrow> a = b \<or> (a, b) \<in> set letterPairs \<or> (b, a) \<in> set letterPairs"

definition caseVariant :: "string \<Rightarrow> string \<Rightarrow> bool" where
  "caseVariant a b \<longleftrightarrow> list_all2 sameLetter a b"

definition isLower :: "char \<Rightarrow> bool" where
  "isLower ch \<longleftrightarrow> ch \<in> fst ` set letterPairs"

subsection \<open>Concrete states\<close>

text \<open>States and call sequences at which the results below are evaluated.\<close>

definition deadPlayer :: Player where
  "deadPlayer =
     Player_new\<lparr> pl_isDead := True,
       pl_particles :=
         [\<lparr> pt_x = 150, pt_y = 100, pt_width = 40 / 3, pt_height = 40 / 3,
            pt_dx = - 200, pt_dy = - 450, pt_angle = 0, pt_angleV = 5, pt_life = 1 \<rparr>] \<rparr>"

definition thinPlatform :: "real \<Rightarrow> Platform" where
  "thinPlatform topEdge =
     \<lparr> pf_x = 180, pf_y = topEdge, pf_width = 100, pf_height = 10, pf_id = 1 \<rparr>"

definition playerOn :: "int \<Rightarrow> int \<Rightarrow> Player" where
  "playerOn lastDeath deaths =
     Player_new\<lparr> pl_lastSafePlatform := Some (thinPlatform 130),
                 pl_lastDeathPlatformId := lastDeath, pl_consecutiveDeaths := deaths \<rparr>"

definition flashingPlayer :: Player where
  "flashingPlayer = Player_new\<lparr> pl_flashTime := 4 \<rparr>"



definition onePixelManager :: CollectibleManager where
  "onePixelManager =
     snd (CollectibleManager_addCollectible 170 120 ''pixel'' CollectibleManager_new)"

definition ownedCalls :: "ManagerCall list" where
  "ownedCalls =
     [ AddCollectible 170 120 ''pixel'',
       AddCollectibles [(300, 80), (400, 60)] ''gem'',
       CheckPlayerCollision 0 Player_new,
       CollectItem 5 (Owned 1),
       CollectItem 6 (Owned 1),
       Update 0 ]"

definition foreignCalls :: "ManagerCall list" where
  "foreignCalls =
     [ AddCollectible 170 120 ''pixel'',
       CollectItem 5 (Foreign (Collectible_new 300 80 ''gem'')),
       CollectItem 6 (Foreign (Collectible_new 400 60 ''gem'')) ]"

section \<open>Player\<close>

text \<open>
  C3. \<^verbatim>\<open>jump()\<close> returns true if and only if the player is grounded, not dead and not
  respawning. When it returns true, \<^verbatim>\<open>dy\<close> is the jump force and the grounded flag is
  cleared, every other field being as before; when it returns false the player is
  unchanged.
\<close>

theorem jump_spec:
  "fst (Player_jump p) = (pl_onGround p \<and> \<not> pl_isDead p \<and> \<not> pl_isRespawning p) \<and>
   (fst (Player_jump p) \<longrightarrow>
      snd (Player_jump p) = p\<lparr> pl_dy := pl_jumpForce p, pl_onGround := False \<rparr>) \<and>
   (\<not> fst (Player_jump p) \<longrightarrow> snd (Player_jump p) = p)"
  by (simp add: Player_jump_def)

text \<open>
  A grounded player of the constructor jumps with the launch velocity -700; the
  constructor's airborne player does not jump and stays as it is.
\<close>

theorem jump_spec_witness:
  "fst (Player_jump (Player_new\<lparr> pl_onGround := True \<rparr>)) \<and>
   pl_dy (snd (Player_jump (Player_new\<lparr> pl_onGround := True \<rparr>))) = - 700 \<and>
   \<not> pl_onGround (snd (Player_jump (Player_new\<lparr> pl_onGround := True \<rparr>))) \<and>
   \<not> fst (Player_jump Player_new) \<and>
   snd (Player_jump Player_new) = Player_new"
  using jump_spec [of "Player_new\<lparr> pl_onGround := True \<rparr>"] jump_spec [of Player_new]
  by (simp add: Player_new_def)

text \<open>
  C4. For a step \<open>dt \<ge> 0\<close> and a player that is dead or respawning, \<^verbatim>\<open>update(dt)\<close> changes
  the particle list and nothing else: position, velocity, angle, flash timer and both
  grounded flags are as before.
\<close>

theorem update_dead_only_particles:
  assumes "dt \<ge> 0" and "pl_isDead p \<or> pl_isRespawning p"
  shows "Player_update dt p = p\<lparr> pl_particles := pl_particles (Player_update dt p) \<rparr> \<and>
         pl_x (Player_update dt p) = pl_x p \<and> pl_y (Player_update dt p) = pl_y p \<and>
         pl_dx (Player_update dt p) = pl_dx p \<and> pl_dy (Player_update dt p) = pl_dy p \<and>
         pl_angle (Player_update dt p) = pl_angle p \<and>
         pl_flashTime (Player_update dt p) = pl_flashTime p \<and>
         pl_onGround (Player_update dt p) = pl_onGround p \<and>
         pl_wasOnGround (Player_update dt p) = pl_wasOnGround p"
  using assms(2) by (simp add: Player_update_def Player_updateParticles_def)

theorem update_dead_only_particles_witness:
  "(1 / 10 :: real) \<ge> 0 \<and> (pl_isDead deadPlayer \<or> pl_isRespawning deadPlayer) \<and>
   pl_x (Player_update (1 / 10) deadPlayer) = 150 \<and>
   pl_y (Player_update (1 / 10) deadPlayer) = 100 \<and>
   pl_dx (Player_update (1 / 10) deadPlayer) = 300 \<and>
   pl_dy (Player_update (1 / 10) deadPlayer) = 0"
  using update_dead_only_particles [of "1 / 10" deadPlayer]
  by (simp add: deadPlayer_def Player_new_def)

text \<open>
  C5. \<^verbatim>\<open>die()\<close> on a player that is already dead changes nothing: the particles, the
  consecutive-death counter and the last-death platform id, like every other field, are
  as before.
\<close>

theorem die_idempotent: "pl_isDead p \<Longrightarrow> Player_die rnd p = p"
  by (simp add: Player_die_def)

theorem die_idempotent_witness:
  "pl_isDead deadPlayer \<and> Player_die (\<lambda>k. 1 / 2) deadPlayer = deadPlayer"
  using die_idempotent [of deadPlayer "\<lambda>k. 1 / 2"]
  by (simp add: deadPlayer_def Player_new_def)

text \<open>
  C6. \<^verbatim>\<open>die()\<close> on a player that is alive sets the dead flag and then: if a last safe
  platform is recorded and its id is the last-death platform id, the consecutive-death
  counter goes up by one and the id stays; if its id differs, the counter becomes 1 and
  the id becomes the platform's; if no platform is recorded, the counter becomes 1 and the
  id becomes -1.
\<close>

theorem die_consecutive_deaths:
  assumes "\<not> pl_isDead p"
  shows "pl_isDead (Player_die rnd p) \<and>
    (\<forall>platform. pl_lastSafePlatform p = Some platform \<and>
                 pf_id platform = pl_lastDeathPlatformId p \<longrightarrow>
       pl_consecutiveDeaths (Player_die rnd p) = pl_consecutiveDeaths p + 1 \<and>
       pl_lastDeathPlatformId (Player_die rnd p) = pl_lastDeathPlatformId p) \<and>
    (\<forall>platform. pl_lastSafePlatform p = Some platform \<and>
                 pf_id platform \<noteq> pl_lastDeathPlatformId p \<longrightarrow>
       pl_consecutiveDeaths (Player_die rnd p) = 1 \<and>
       pl_lastDeathPlatformId (Player_die rnd p) = pf_id platform) \<and>
    (pl_lastSafePlatform p = None \<longrightarrow>
       pl_consecutiveDeaths (Player_die rnd p) = 1 \<and>
       pl_lastDeathPlatformId (Player_die rnd p) = - 1)"
  using assms
  by (auto simp add: Player_die_def Player_createExplosion_def Let_def split: option.splits)

text \<open>
  A third death on platform 1 after two there; a first death on platform 1 after deaths
  on platform 7; a death with no platform recorded.
\<close>

theorem die_consecutive_deaths_witness:
  "\<not> pl_isDead (playerOn 1 2) \<and>
   pl_lastSafePlatform (playerOn 1 2) = Some (thinPlatform 130) \<and>
   pf_id (thinPlatform 130) = pl_lastDeathPlatformId (playerOn 1 2) \<and>
   pl_consecutiveDeaths (Player_die (\<lambda>k. 1 / 2) (playerOn 1 2)) = 3 \<and>
   pl_lastDeathPlatformId (Player_die (\<lambda>k. 1 / 2) (playerOn 1 2)) = 1 \<and>
   pf_id (thinPlatform 130) \<noteq> pl_lastDeathPlatformId (playerOn 7 2) \<and>
   pl_consecutiveDeaths (Player_die (\<lambda>k. 1 / 2) (playerOn 7 2)) = 1 \<and>
   pl_lastDeathPlatformId (Player_die (\<lambda>k. 1 / 2) (playerOn 7 2)) = 1 \<and>
   pl_lastSafePlatform Player_new = None \<and>
   pl_consecutiveDeaths (Player_die (\<lambda>k. 1 / 2) Player_new) = 1 \<and>
   pl_lastDeathPlatformId (Player_die (\<lambda>k. 1 / 2) Player_new) = - 1"
  using die_consecutive_deaths [of "playerOn 1 2" "\<lambda>k. 1 / 2"]
        die_consecutive_deaths [of "playerOn 7 2" "\<lambda>k. 1 / 2"]
        die_consecutive_deaths [of Player_new "\<lambda>k. 1 / 2"]
  by (simp add: playerOn_def Player_new_def thinPlatform_def)

text \<open>
  C2. A player moves rightwards into a platform, overlapping it horizontally and
  vertically, and neither the landing nor the bump from below applies. With \<open>p\<close> the
  player's bottom edge minus the platform's top: if \<open>0 < p < height / 2\<close> and \<open>dy \<ge> 0\<close>,
  the call returns true with the player snapped onto the platform, \<open>dy = -120\<close>, grounded,
  and the platform recorded as last safe platform; if \<open>p \<ge> height / 2\<close>, which includes
  \<open>p = height / 2\<close>, the call returns false after \<^verbatim>\<open>die()\<close>, and the player is dead.
\<close>

theorem side_contact_grab_or_lethal:
  assumes "pl_x p + pl_width p > pf_x platform"
    and "pl_x p < pf_x platform + pf_width platform"
    and "pl_dx p > 0"
    and "pl_y p + pl_height p > pf_y platform"
    and "pl_y p < pf_y platform + pf_height platform"
    and "\<not> (pl_dy p \<ge> 0 \<and> pl_y p + pl_height p \<ge> pf_y platform \<and>
            pl_y p + pl_height p < pf_y platform + pf_height platform)"
    and "\<not> (pl_dy p < 0 \<and> pl_y p < pf_y platform + pf_height platform \<and>
            pl_y p > pf_y platform)"
  shows "(0 < (pl_y p + pl_height p) - pf_y platform \<and>
          (pl_y p + pl_height p) - pf_y platform < pl_height p / 2 \<and> pl_dy p \<ge> 0 \<longrightarrow>
            Player_handlePlatformCollision rnd platform p =
              (True, p\<lparr> pl_y := pf_y platform - pl_height p, pl_dy := - 120,
                         pl_onGround := True, pl_lastSafePlatform := Some platform \<rparr>)) \<and>
         ((pl_y p + pl_height p) - pf_y platform \<ge> pl_height p / 2 \<longrightarrow>
            Player_handlePlatformCollision rnd platform p = (False, Player_die rnd p) \<and>
            pl_isDead (Player_die rnd p))"
proof -
  have dead: "pl_isDead (Player_die rnd p)"
    by (simp add: Player_die_def Player_createExplosion_def Let_def split: option.splits)
  from assms show ?thesis
    unfolding Player_handlePlatformCollision_def Let_def
    using dead by auto
qed

text \<open>
  The constructor's player, 40 high with its bottom edge at 140, against a platform 10
  thick: with the platform's top at 130 the overlap is 10 and the player grabs the ledge;
  with the top at 120 the overlap is 20, half the height, and the player dies.
\<close>

theorem side_contact_grab_or_lethal_witness:
  "Player_handlePlatformCollision (\<lambda>k. 1 / 2) (thinPlatform 130) Player_new =
     (True, Player_new\<lparr> pl_y := 90, pl_dy := - 120, pl_onGround := True,
                        pl_lastSafePlatform := Some (thinPlatform 130) \<rparr>) \<and>
   (pl_y Player_new + pl_height Player_new) - pf_y (thinPlatform 120) =
     pl_height Player_new / 2 \<and>
   Player_handlePlatformCollision (\<lambda>k. 1 / 2) (thinPlatform 120) Player_new =
     (False, Player_die (\<lambda>k. 1 / 2) Player_new) \<and>
   pl_isDead (Player_die (\<lambda>k. 1 / 2) Player_new)"
  using side_contact_grab_or_lethal
          [where p = Player_new and platform = "thinPlatform 130" and rnd = "\<lambda>k. 1 / 2"]
        side_contact_grab_or_lethal
          [where p = Player_new and platform = "thinPlatform 120" and rnd = "\<lambda>k. 1 / 2"]
  by (simp add: Player_new_def thinPlatform_def)

text \<open>
  C9, as the code has it. For a step \<open>dt \<ge> 0\<close> and a player that is alive and not
  respawning: a flash timer \<open>f > 0\<close> becomes \<open>f - 60 * dt\<close>, which is at least 0 exactly
  when \<open>60 * dt \<le> f\<close>, since \<^verbatim>\<open>update\<close> does not clamp; a flash timer at 0 stays at 0.
\<close>

theorem flashTime_decay:
  assumes "dt \<ge> 0" and "\<not> pl_isDead p" and "\<not> pl_isRespawning p"
  shows "(pl_flashTime p > 0 \<longrightarrow>
            pl_flashTime (Player_update dt p) = pl_flashTime p - 60 * dt \<and>
            (0 \<le> pl_flashTime (Player_update dt p) \<longleftrightarrow> 60 * dt \<le> pl_flashTime p)) \<and>
         (pl_flashTime p = 0 \<longrightarrow> pl_flashTime (Player_update dt p) = 0)"
  using assms
  by (simp add: Player_update_def Player_updateParticles_def Let_def mult.commute)

theorem flashTime_decay_witness:
  "(0 :: real) \<le> 1 / 60 \<and> \<not> pl_isDead flashingPlayer \<and> \<not> pl_isRespawning flashingPlayer \<and>
   pl_flashTime flashingPlayer > 0 \<and>
   pl_flashTime (Player_update (1 / 60) flashingPlayer) = 3 \<and>
   pl_flashTime Player_new = 0 \<and>
   pl_flashTime (Player_update (1 / 60) Player_new) = 0"
  using flashTime_decay [of "1 / 60" flashingPlayer] flashTime_decay [of "1 / 60" Player_new]
  by (simp add: flashingPlayer_def Player_new_def)

text \<open>
  The flash timer does go below 0: at 4, a step of a tenth of a second takes it to -2.
\<close>

theorem flashTime_below_zero:
  "(0 :: real) \<le> 1 / 10 \<and> \<not> pl_isDead flashingPlayer \<and> \<not> pl_isRespawning flashingPlayer \<and>
   pl_flashTime flashingPlayer > 0 \<and>
   pl_flashTime (Player_update (1 / 10) flashingPlayer) = - 2 \<and>
   \<not> (0 \<le> pl_flashTime (Player_update (1 / 10) flashingPlayer))"
  by (simp add: flashingPlayer_def Player_new_def Player_update_def Player_updateParticles_def
        Let_def)


section \<open>CollectibleManager\<close>

subsection \<open>The collision pass\<close>

text \<open>
  A successful collision check of the player has deactivated the collectible, and
  \<^verbatim>\<open>collect()\<close> refuses an inactive collectible. So the \<^verbatim>\<open>collectItem\<close> call of
  \<^verbatim>\<open>checkPlayerCollision\<close> never counts and never adds an effect.
\<close>

lemma hit_deactivates:
  "Player_handleCollectibleCollision c p = (True, c1, p1) \<Longrightarrow>
   \<not> co_active c1 \<and> co_collected c1 = co_collected c"
  by (auto simp add: Player_handleCollectibleCollision_def Let_def split: if_splits)

lemma miss_keeps:
  "Player_handleCollectibleCollision c p = (False, c1, p1) \<Longrightarrow> c1 = c"
  by (auto simp add: Player_handleCollectibleCollision_def Let_def split: if_splits)

lemma collectItem_inactive:
  "\<not> co_active c \<Longrightarrow> CollectibleManager_collectItem now c m = (c, m)"
  by (simp add: CollectibleManager_collectItem_def Collectible_collect_def)

lemma forEach_never_credits:
  "checkPlayerCollision_forEach now cs p m = (cs', p', m') \<Longrightarrow>
   m' = m \<and> map co_collected cs' = map co_collected cs"
proof (induction cs arbitrary: p cs' p' m')
  case Nil
  then show ?case by simp
next
  case (Cons c cs)
  show ?case
  proof (cases "co_active c")
    case False
    with Cons.prems Cons.IH show ?thesis
      by (auto split: prod.splits)
  next
    case True
    obtain hit c1 p1 where h: "Player_handleCollectibleCollision c p = (hit, c1, p1)"
      by (cases "Player_handleCollectibleCollision c p") auto
    show ?thesis
    proof (cases hit)
      case True
      with h have "Player_handleCollectibleCollision c p = (True, c1, p1)"
        by simp
      from hit_deactivates [OF this]
      have c1: "\<not> co_active c1" "co_collected c1 = co_collected c"
        by simp_all
      from c1(1) have ci: "CollectibleManager_collectItem now c1 m = (c1, m)"
        by (rule collectItem_inactive)
      from Cons.prems \<open>co_active c\<close> h True ci Cons.IH c1(2) show ?thesis
        by (auto split: prod.splits)
    next
      case False
      with h have "Player_handleCollectibleCollision c p = (False, c1, p1)"
        by simp
      from miss_keeps [OF this] have "c1 = c" .
      with Cons.prems \<open>co_active c\<close> h False Cons.IH show ?thesis
        by (auto split: prod.splits)
    qed
  qed
qed

lemma checkPlayerCollision_never_credits:
  "cm_collectedCount (snd (CollectibleManager_checkPlayerCollision now p m)) = cm_collectedCount m \<and>
   cm_totalCount (snd (CollectibleManager_checkPlayerCollision now p m)) = cm_totalCount m \<and>
   cm_collectionEffects (snd (CollectibleManager_checkPlayerCollision now p m)) =
     cm_collectionEffects m \<and>
   map co_collected (cm_collectibles (snd (CollectibleManager_checkPlayerCollision now p m))) =
     map co_collected (cm_collectibles m)"
proof -
  obtain cs' p' m' where
    r: "checkPlayerCollision_forEach now (cm_collectibles m) p m = (cs', p', m')"
    by (cases "checkPlayerCollision_forEach now (cm_collectibles m) p m") auto
  from forEach_never_credits [OF r] r show ?thesis
    by (simp add: CollectibleManager_checkPlayerCollision_def)
qed

text \<open>
  C1. The manager holds one active pixel at the centre of the constructor's player. The
  player's collision check succeeds for it, and \<^verbatim>\<open>checkPlayerCollision\<close> leaves the
  collected count at 0 and the effects list empty; the pixel ends inactive and not
  collected.
\<close>

theorem checkPlayerCollision_hit_not_credited:
  "cm_collectibles onePixelManager = [Collectible_new 170 120 ''pixel''] \<and>
   co_active (Collectible_new 170 120 ''pixel'') \<and>
   fst (Player_handleCollectibleCollision (Collectible_new 170 120 ''pixel'') Player_new) \<and>
   cm_collectedCount onePixelManager = 0 \<and>
   cm_collectedCount
     (snd (CollectibleManager_checkPlayerCollision 0 Player_new onePixelManager)) = 0 \<and>
   cm_collectionEffects
     (snd (CollectibleManager_checkPlayerCollision 0 Player_new onePixelManager)) = [] \<and>
   cm_collectibles (snd (CollectibleManager_checkPlayerCollision 0 Player_new onePixelManager)) =
     [(Collectible_new 170 120 ''pixel'')\<lparr> co_active := False \<rparr>]"
  by (simp add: onePixelManager_def CollectibleManager_addCollectible_def
        CollectibleManager_new_def Collectible_new_def Collectible_initializeType_def
        typeConfigs_def pixelConfig_def Player_new_def
        CollectibleManager_checkPlayerCollision_def Player_handleCollectibleCollision_def
        Math_hypot_def CollectibleManager_collectItem_def Collectible_collect_def Let_def)

subsection \<open>The counters\<close>

lemma collected_count_cong:
  "map co_collected xs = map co_collected ys \<Longrightarrow>
   length (filter co_collected xs) = length (filter co_collected ys)"
proof (induction xs arbitrary: ys)
  case Nil
  then show ?case by simp
next
  case (Cons x xs)
  then show ?case by (cases ys) auto
qed

lemma collected_count_update:
  "i < length xs \<Longrightarrow> \<not> co_collected (xs ! i) \<Longrightarrow> co_collected c' \<Longrightarrow>
   length (filter co_collected (xs[i := c'])) = Suc (length (filter co_collected xs))"
proof (induction xs arbitrary: i)
  case Nil
  then show ?case by simp
next
  case (Cons x xs)
  then show ?case by (cases i) auto
qed

lemma Collectible_new_not_collected: "\<not> co_collected (Collectible_new x y type)"
  by (simp add: Collectible_new_def Collectible_initializeType_def Let_def)

lemma Collectible_update_collected:
  "co_collected (Collectible_update dt c) = co_collected c"
  by (simp add: Collectible_update_def Let_def)

lemma countsAgree_new: "countsAgree CollectibleManager_new"
  by (simp add: countsAgree_def CollectibleManager_new_def)

lemma countsAgree_addCollectible:
  "countsAgree m \<Longrightarrow> countsAgree (snd (CollectibleManager_addCollectible x y type m))"
  by (simp add: countsAgree_def CollectibleManager_addCollectible_def Let_def
        Collectible_new_not_collected)

lemma countsAgree_addCollectibles:
  "countsAgree m \<Longrightarrow> countsAgree (CollectibleManager_addCollectibles positions type m)"
  by (induction positions arbitrary: m) (simp_all add: countsAgree_addCollectible)

lemma countsAgree_update:
  assumes "countsAgree m"
  shows "countsAgree (CollectibleManager_update dt m)"
proof -
  have "map co_collected (map (Collectible_update dt) (cm_collectibles m)) =
        map co_collected (cm_collectibles m)"
    by (simp add: Collectible_update_collected)
  from collected_count_cong [OF this] assms show ?thesis
    by (simp add: countsAgree_def CollectibleManager_update_def Let_def)
qed

lemma countsAgree_checkPlayerCollision:
  assumes "countsAgree m"
  shows "countsAgree (snd (CollectibleManager_checkPlayerCollision now p m))"
proof -
  let ?m' = "snd (CollectibleManager_checkPlayerCollision now p m)"
  from checkPlayerCollision_never_credits [of now p m]
  have c: "cm_collectedCount ?m' = cm_collectedCount m"
    and t: "cm_totalCount ?m' = cm_totalCount m"
    and f: "map co_collected (cm_collectibles ?m') = map co_collected (cm_collectibles m)"
    by simp_all
  from f have "length (cm_collectibles ?m') = length (cm_collectibles m)"
    by (rule map_eq_imp_length_eq)
  with collected_count_cong [OF f] c t assms show ?thesis
    by (simp add: countsAgree_def)
qed

lemma countsAgree_collectItem_owned:
  assumes "countsAgree m"
  shows "countsAgree (ManagerCall_apply (CollectItem now (Owned i)) m)"
proof (cases "i < length (cm_collectibles m)")
  case False
  with assms show ?thesis by simp
next
  case True
  let ?c = "cm_collectibles m ! i"
  show ?thesis
  proof (cases "\<not> co_active ?c \<or> co_collected ?c")
    case True
    then have "CollectibleManager_collectItem now ?c m = (?c, m)"
      by (auto simp add: CollectibleManager_collectItem_def Collectible_collect_def)
    with assms \<open>i < length (cm_collectibles m)\<close> show ?thesis by simp
  next
    case False
    with True collected_count_update
      [of i "cm_collectibles m"
          "?c\<lparr> co_active := False, co_collected := True, co_collectionTime := now,
                co_pulseEffect := 1 \<rparr>"]
      assms
    show ?thesis
      by (simp add: countsAgree_def CollectibleManager_collectItem_def Collectible_collect_def)
  qed
qed

lemma countsAgree_reset: "countsAgree m \<Longrightarrow> countsAgree (CollectibleManager_reset m)"
  by (simp add: countsAgree_def CollectibleManager_reset_def filter_map comp_def)

lemma countsAgree_clear: "countsAgree (CollectibleManager_clear m)"
  by (simp add: countsAgree_def CollectibleManager_clear_def)

lemma countsAgree_apply:
  "countsAgree m \<Longrightarrow> ownedCall call \<Longrightarrow> countsAgree (ManagerCall_apply call m)"
proof (cases call)
  case (CollectItem now ref)
  assume "countsAgree m" "ownedCall call"
  with CollectItem show ?thesis
    by (cases ref) (simp_all add: countsAgree_collectItem_owned del: ManagerCall_apply.simps)
qed (simp_all add: countsAgree_addCollectible countsAgree_addCollectibles countsAgree_update
       countsAgree_checkPlayerCollision countsAgree_reset countsAgree_clear)

lemma countsAgree_run:
  "countsAgree m \<Longrightarrow> list_all ownedCall calls \<Longrightarrow> countsAgree (ManagerCall_run calls m)"
  by (induction calls arbitrary: m) (simp_all add: countsAgree_apply)

lemma countsAgree_progress:
  assumes "countsAgree m"
  shows "cm_collectedCount m \<le> cm_totalCount m \<and>
         cp_percentage (CollectibleManager_getCollectionProgress m) \<le> 100"
proof -
  from assms have le: "cm_collectedCount m \<le> cm_totalCount m"
    by (simp add: countsAgree_def)
  have "cp_percentage (CollectibleManager_getCollectionProgress m) \<le> 100"
  proof (cases "cm_totalCount m > 0")
    case True
    with le have "(of_int (cm_collectedCount m) :: real) / of_int (cm_totalCount m) \<le> 1"
      by simp
    moreover have "q * 100 \<le> 100" if "q \<le> 1" for q :: real
      using that by simp
    ultimately
    have "(of_int (cm_collectedCount m) :: real) / of_int (cm_totalCount m) * 100 \<le> 100"
      by blast
    with True show ?thesis
      by (simp add: CollectibleManager_getCollectionProgress_def)
  next
    case False
    then show ?thesis by (simp add: CollectibleManager_getCollectionProgress_def)
  qed
  with le show ?thesis by simp
qed

text \<open>
  C10, as the code has it. In every state reached from the constructor by
  \<^verbatim>\<open>addCollectible\<close>, \<^verbatim>\<open>addCollectibles\<close>, \<^verbatim>\<open>update\<close>, \<^verbatim>\<open>checkPlayerCollision\<close>, \<^verbatim>\<open>reset\<close>,
  \<^verbatim>\<open>clear\<close> and \<^verbatim>\<open>collectItem\<close> on collectibles of the manager's own array, the collected
  count is the number of owned collectibles whose collected flag is set and the total
  count is the number of owned collectibles; so the collected count is at most the total
  count and \<^verbatim>\<open>getCollectionProgress\<close> reports at most 100 percent.
\<close>

theorem manager_counts_agree:
  assumes "list_all ownedCall calls"
  shows "countsAgree (ManagerCall_run calls CollectibleManager_new) \<and>
         cm_collectedCount (ManagerCall_run calls CollectibleManager_new) \<le>
           cm_totalCount (ManagerCall_run calls CollectibleManager_new) \<and>
         cp_percentage (CollectibleManager_getCollectionProgress
                          (ManagerCall_run calls CollectibleManager_new)) \<le> 100"
  using countsAgree_run [OF countsAgree_new assms] countsAgree_progress by blast

theorem manager_counts_agree_witness:
  "list_all ownedCall ownedCalls \<and>
   countsAgree (ManagerCall_run ownedCalls CollectibleManager_new) \<and>
   cm_collectedCount (ManagerCall_run ownedCalls CollectibleManager_new) \<le>
     cm_totalCount (ManagerCall_run ownedCalls CollectibleManager_new) \<and>
   cp_percentage (CollectibleManager_getCollectionProgress
                    (ManagerCall_run ownedCalls CollectibleManager_new)) \<le> 100"
  using manager_counts_agree [of ownedCalls]
  by (simp add: ownedCalls_def)

text \<open>
  \<^verbatim>\<open>collectItem\<close> on a collectible that is not in the manager's array counts it all the
  same: after one \<^verbatim>\<open>addCollectible\<close> and two such calls the collected count is 2 of a
  total of 1, and the progress is 200 percent.
\<close>

theorem manager_counts_foreign:
  "cm_collectedCount (ManagerCall_run foreignCalls CollectibleManager_new) = 2 \<and>
   cm_totalCount (ManagerCall_run foreignCalls CollectibleManager_new) = 1 \<and>
   length (filter co_collected
     (cm_collectibles (ManagerCall_run foreignCalls CollectibleManager_new))) = 0 \<and>
   \<not> countsAgree (ManagerCall_run foreignCalls CollectibleManager_new) \<and>
   \<not> cm_collectedCount (ManagerCall_run foreignCalls CollectibleManager_new) \<le>
       cm_totalCount (ManagerCall_run foreignCalls CollectibleManager_new) \<and>
   cp_percentage (CollectibleManager_getCollectionProgress
                    (ManagerCall_run foreignCalls CollectibleManager_new)) = 200"
  by (simp add: foreignCalls_def countsAgree_def CollectibleManager_getCollectionProgress_def
        CollectibleManager_addCollectible_def CollectibleManager_new_def
        CollectibleManager_collectItem_def Collectible_collect_def
        Collectible_new_def Collectible_initializeType_def Let_def)


section \<open>Camera\<close>

subsection \<open>Exact arithmetic\<close>








lemma Camera_setSmoothness_range:
  "0 \<le> cam_smoothness (Camera_setSmoothness smoothness c) \<and>
   cam_smoothness (Camera_setSmoothness smoothness c) \<le> 1"
  by (simp add: Camera_setSmoothness_def)




subsection \<open>Binary64 arithmetic\<close>














section \<open>GameState\<close>

lemma letterPairs_distinct: "distinct (map fst letterPairs)"
  by (simp add: letterPairs_def)

lemma letterPairs_disjoint: "k \<in> snd ` set letterPairs \<Longrightarrow> k \<notin> fst ` set letterPairs"
  by (auto simp add: letterPairs_def)

lemma toUpperCase_char_lower:
  assumes "isLower c"
  shows "(c, toUpperCase_char c) \<in> set letterPairs"
proof -
  from assms have "map_of letterPairs c \<noteq> None"
    by (simp add: isLower_def map_of_eq_None_iff)
  then obtain k where k: "map_of letterPairs c = Some k" by blast
  then have "(c, k) \<in> set letterPairs" by (rule map_of_SomeD)
  with k show ?thesis by (simp add: toUpperCase_char_def)
qed

lemma toUpperCase_char_other:
  assumes "\<not> isLower c"
  shows "toUpperCase_char c = c"
proof -
  from assms have "map_of letterPairs c = None"
    by (simp add: isLower_def map_of_eq_None_iff)
  then show ?thesis by (simp add: toUpperCase_char_def)
qed

lemma letterPairs_fun:
  assumes "(c, k) \<in> set letterPairs"
  shows "isLower c \<and> \<not> isLower k \<and> toUpperCase_char c = k"
proof -
  from assms have "c \<in> fst ` set letterPairs" by force
  then have l: "isLower c" by (simp add: isLower_def)
  from assms have "k \<in> snd ` set letterPairs" by force
  then have u: "\<not> isLower k" unfolding isLower_def by (rule letterPairs_disjoint)
  from letterPairs_distinct assms have "map_of letterPairs c = Some k"
    by (rule map_of_is_SomeI)
  then have "toUpperCase_char c = k" by (simp add: toUpperCase_char_def)
  with l u show ?thesis by simp
qed

lemma sameLetter_upper:
  assumes "\<not> isLower k"
  shows "sameLetter c k \<longleftrightarrow> toUpperCase_char c = k"
proof (cases "isLower c")
  case True
  from toUpperCase_char_lower [OF True] letterPairs_fun assms True show ?thesis
    unfolding sameLetter_def by blast
next
  case False
  from toUpperCase_char_other [OF False] assms False show ?thesis
    by (auto simp add: sameLetter_def dest: letterPairs_fun)
qed

lemma caseVariant_upper:
  "list_all (\<lambda>k. \<not> isLower k) name \<Longrightarrow>
   caseVariant variant name \<longleftrightarrow> toUpperCase variant = name"
proof (induction name arbitrary: variant)
  case Nil
  then show ?case by (simp add: caseVariant_def toUpperCase_def)
next
  case (Cons k name)
  then show ?case
    by (cases variant) (auto simp add: caseVariant_def toUpperCase_def sameLetter_upper)
qed

lemma states_names_upper:
  "(name, v) \<in> set states \<Longrightarrow> list_all (\<lambda>k. \<not> isLower k) name"
  by (auto simp add: states_def isLower_def letterPairs_def)

lemma states_lookup:
  "(name, v) \<in> set states \<Longrightarrow> map_of states name = Some v"
  by (rule map_of_is_SomeI) (simp_all add: states_def)

lemma setGameState_known:
  assumes "(name, v) \<in> set states" and "caseVariant variant name"
  shows "GameState_setGameState now variant gs =
           GameState_handleStateChange now (gs\<lparr> gs_currentState := v \<rparr>)"
proof -
  from assms have "toUpperCase variant = name"
    by (simp add: caseVariant_upper [OF states_names_upper])
  with states_lookup [OF assms(1)] show ?thesis
    by (simp add: GameState_setGameState_def)
qed

lemma setGameState_unknown:
  assumes "\<forall>name v. (name, v) \<in> set states \<longrightarrow> \<not> caseVariant variant name"
  shows "GameState_setGameState now variant gs =
           GameState_handleStateChange now (gs\<lparr> gs_currentState := variant \<rparr>)"
proof -
  have "map_of states (toUpperCase variant) = None"
  proof (rule ccontr)
    assume "map_of states (toUpperCase variant) \<noteq> None"
    then obtain v where "map_of states (toUpperCase variant) = Some v" by blast
    then have m: "(toUpperCase variant, v) \<in> set states" by (rule map_of_SomeD)
    then have "caseVariant variant (toUpperCase variant)"
      by (simp add: caseVariant_upper [OF states_names_upper])
    with m assms show False by blast
  qed
  then show ?thesis by (simp add: GameState_setGameState_def)
qed

lemma handleStateChange_effects:
  "gs_currentState (GameState_handleStateChange now gs) = gs_currentState gs \<and>
   gs_timeScale (GameState_handleStateChange now gs) = gs_timeScale gs \<and>
   gs_timeScaleTarget (GameState_handleStateChange now gs) =
     (if gs_currentState gs = ''playing'' \<or> gs_currentState gs = ''levelReady'' then 1
      else if gs_currentState gs = ''paused'' \<or> gs_currentState gs = ''levelComplete'' then 0
      else gs_timeScaleTarget gs) \<and>
   gs_stats (GameState_handleStateChange now gs) =
     (if gs_currentState gs = ''dead''
      then (gs_stats gs)\<lparr> st_totalDeaths := st_totalDeaths (gs_stats gs) + 1,
                            st_levelDeaths := st_levelDeaths (gs_stats gs) + 1,
                            st_consecutiveDeaths := st_consecutiveDeaths (gs_stats gs) + 1 \<rparr>
      else if gs_currentState gs = ''levelReady''
      then (gs_stats gs)\<lparr> st_levelStartTime := now \<rparr>
      else gs_stats gs)"
  by (simp add: GameState_handleStateChange_def Let_def)

text \<open>
  C7, as the code has it. The names that \<^verbatim>\<open>setGameState\<close> recognises are the keys of the
  table \<^verbatim>\<open>states\<close>. For a letter-case variant of such a key the current state becomes the
  table's value for the key; a string that is a variant of no key, the values of the table
  among them, is stored as it is written. Then \<^verbatim>\<open>handleStateChange\<close> has run once on the state
  set: the time scale is as before; the time-scale target is 1 for playing and level
  ready, 0 for paused and level complete, and as before otherwise; entering dead adds one
  to each of the three death counters, entering level ready stamps the level start, and
  the statistics are as before otherwise.
\<close>

theorem setGameState_canonical:
  "(\<forall>name v. (name, v) \<in> set states \<and> caseVariant variant name \<longrightarrow>
      gs_currentState (GameState_setGameState now variant gs) = v) \<and>
   ((\<forall>name v. (name, v) \<in> set states \<longrightarrow> \<not> caseVariant variant name) \<longrightarrow>
      gs_currentState (GameState_setGameState now variant gs) = variant) \<and>
   GameState_setGameState now variant gs =
     GameState_handleStateChange now
       (gs\<lparr> gs_currentState := gs_currentState (GameState_setGameState now variant gs) \<rparr>) \<and>
   gs_timeScale (GameState_setGameState now variant gs) = gs_timeScale gs \<and>
   gs_timeScaleTarget (GameState_setGameState now variant gs) =
     (if gs_currentState (GameState_setGameState now variant gs) = ''playing'' \<or>
         gs_currentState (GameState_setGameState now variant gs) = ''levelReady'' then 1
      else if gs_currentState (GameState_setGameState now variant gs) = ''paused'' \<or>
              gs_currentState (GameState_setGameState now variant gs) = ''levelComplete'' then 0
      else gs_timeScaleTarget gs) \<and>
   gs_stats (GameState_setGameState now variant gs) =
     (if gs_currentState (GameState_setGameState now variant gs) = ''dead''
      then (gs_stats gs)\<lparr> st_totalDeaths := st_totalDeaths (gs_stats gs) + 1,
                            st_levelDeaths := st_levelDeaths (gs_stats gs) + 1,
                            st_consecutiveDeaths := st_consecutiveDeaths (gs_stats gs) + 1 \<rparr>
      else if gs_currentState (GameState_setGameState now variant gs) = ''levelReady''
      then (gs_stats gs)\<lparr> st_levelStartTime := now \<rparr>
      else gs_stats gs)"
proof -
  obtain s where run: "GameState_setGameState now variant gs =
      GameState_handleStateChange now (gs\<lparr> gs_currentState := s \<rparr>)"
    and known: "\<And>name v. (name, v) \<in> set states \<Longrightarrow> caseVariant variant name \<Longrightarrow> s = v"
    and unknown: "(\<forall>name v. (name, v) \<in> set states \<longrightarrow> \<not> caseVariant variant name) \<Longrightarrow>
                  s = variant"
  proof (cases "\<exists>name v. (name, v) \<in> set states \<and> caseVariant variant name")
    case True
    then obtain name v where nv: "(name, v) \<in> set states" "caseVariant variant name"
      by blast
    have "v' = v" if "(name', v') \<in> set states" "caseVariant variant name'" for name' v'
    proof -
      from that have "toUpperCase variant = name'"
        by (simp add: caseVariant_upper [OF states_names_upper])
      moreover from nv have "toUpperCase variant = name"
        by (simp add: caseVariant_upper [OF states_names_upper])
      ultimately have "map_of states name = Some v'"
        using states_lookup [OF that(1)] by simp
      with states_lookup [OF nv(1)] show ?thesis by simp
    qed
    with setGameState_known [OF nv, of now gs] nv that [of v] show ?thesis
      by blast
  next
    case False
    then have "\<forall>name v. (name, v) \<in> set states \<longrightarrow> \<not> caseVariant variant name"
      by blast
    from setGameState_unknown [OF this, of now gs] False that [of variant] show ?thesis
      by blast
  qed
  note eff = handleStateChange_effects [of now "gs\<lparr> gs_currentState := s \<rparr>"]
  have cs: "gs_currentState (GameState_setGameState now variant gs) = s"
    using eff run by simp
  have k: "\<forall>name v. (name, v) \<in> set states \<and> caseVariant variant name \<longrightarrow> s = v"
    using known by blast
  have u: "(\<forall>name v. (name, v) \<in> set states \<longrightarrow> \<not> caseVariant variant name) \<longrightarrow> s = variant"
    using unknown by blast
  have t: "gs_timeScale (GameState_setGameState now variant gs) = gs_timeScale gs"
    using eff run by simp
  have tt: "gs_timeScaleTarget (GameState_setGameState now variant gs) =
     (if s = ''playing'' \<or> s = ''levelReady'' then 1
      else if s = ''paused'' \<or> s = ''levelComplete'' then 0
      else gs_timeScaleTarget gs)"
    using eff unfolding run by simp
  have st: "gs_stats (GameState_setGameState now variant gs) =
     (if s = ''dead''
      then (gs_stats gs)\<lparr> st_totalDeaths := st_totalDeaths (gs_stats gs) + 1,
                            st_levelDeaths := st_levelDeaths (gs_stats gs) + 1,
                            st_consecutiveDeaths := st_consecutiveDeaths (gs_stats gs) + 1 \<rparr>
      else if s = ''levelReady''
      then (gs_stats gs)\<lparr> st_levelStartTime := now \<rparr>
      else gs_stats gs)"
    using eff unfolding run by simp
  from k u run t tt st show ?thesis
    unfolding cs by (intro conjI)
qed

text \<open>
  \<^verbatim>\<open>Level_Complete\<close> and \<^verbatim>\<open>dead\<close> are variants of keys; \<^verbatim>\<open>levelComplete\<close>, which the game
  itself passes, is a variant of no key and is stored as written, where the hook finds
  it.
\<close>

theorem setGameState_canonical_witness:
  "(''LEVEL_COMPLETE'', ''levelComplete'') \<in> set states \<and>
   caseVariant ''Level_Complete'' ''LEVEL_COMPLETE'' \<and>
   gs_currentState (GameState_setGameState 0 ''Level_Complete'' GameState_new) = ''levelComplete'' \<and>
   gs_timeScaleTarget (GameState_setGameState 0 ''Level_Complete'' GameState_new) = 0 \<and>
   (''DEAD'', ''dead'') \<in> set states \<and> caseVariant ''dead'' ''DEAD'' \<and>
   gs_currentState (GameState_setGameState 0 ''dead'' GameState_new) = ''dead'' \<and>
   st_totalDeaths (gs_stats (GameState_setGameState 0 ''dead'' GameState_new)) = 1 \<and>
   \<not> (\<exists>name v. (name, v) \<in> set states \<and> caseVariant ''levelComplete'' name) \<and>
   gs_currentState (GameState_setGameState 0 ''levelComplete'' GameState_new) = ''levelComplete'' \<and>
   gs_timeScaleTarget (GameState_setGameState 0 ''levelComplete'' GameState_new) = 0"
proof -
  have k1: "(''LEVEL_COMPLETE'', ''levelComplete'') \<in> set states"
    and k2: "(''DEAD'', ''dead'') \<in> set states"
    by (simp_all add: states_def)
  have v1: "caseVariant ''Level_Complete'' ''LEVEL_COMPLETE''"
    and v2: "caseVariant ''dead'' ''DEAD''"
    by (simp_all add: caseVariant_def sameLetter_def letterPairs_def)
  have v3: "\<not> (\<exists>name v. (name, v) \<in> set states \<and> caseVariant ''levelComplete'' name)"
    by (auto simp add: states_def caseVariant_def sameLetter_def letterPairs_def)
  note a = setGameState_canonical [of "''Level_Complete''" 0 GameState_new]
  note b = setGameState_canonical [of "''dead''" 0 GameState_new]
  note c = setGameState_canonical [of "''levelComplete''" 0 GameState_new]
  from a k1 v1
  have a1: "gs_currentState (GameState_setGameState 0 ''Level_Complete'' GameState_new) =
              ''levelComplete''"
    by blast
  have a2: "gs_timeScaleTarget (GameState_setGameState 0 ''Level_Complete'' GameState_new) = 0"
    using a [THEN conjunct2, THEN conjunct2, THEN conjunct2, THEN conjunct2, THEN conjunct1]
    unfolding a1 by simp
  from b k2 v2
  have b1: "gs_currentState (GameState_setGameState 0 ''dead'' GameState_new) = ''dead''"
    by blast
  have b2: "st_totalDeaths (gs_stats (GameState_setGameState 0 ''dead'' GameState_new)) = 1"
    using b [THEN conjunct2, THEN conjunct2, THEN conjunct2, THEN conjunct2, THEN conjunct2]
    unfolding b1 by (simp add: GameState_new_def)
  from c v3
  have c1: "gs_currentState (GameState_setGameState 0 ''levelComplete'' GameState_new) =
              ''levelComplete''"
    by blast
  have c2: "gs_timeScaleTarget (GameState_setGameState 0 ''levelComplete'' GameState_new) = 0"
    using c [THEN conjunct2, THEN conjunct2, THEN conjunct2, THEN conjunct2, THEN conjunct1]
    unfolding c1 by simp
  from k1 k2 v1 v2 v3 a1 a2 b1 b2 c1 c2 show ?thesis by (intro conjI)
qed

text \<open>
  The values of the table are not case-insensitive: \<^verbatim>\<open>LevelComplete\<close> is a letter-case
  variant of the value \<^verbatim>\<open>levelComplete\<close> and of no key. It is stored as written, no \<^verbatim>\<open>case\<close> of
  the hook matches it, and the time-scale target stays 1 where \<^verbatim>\<open>levelComplete\<close> sets it
  to 0.
\<close>

theorem setGameState_camelCase_verbatim:
  "(''LEVEL_COMPLETE'', ''levelComplete'') \<in> set states \<and>
   caseVariant ''LevelComplete'' ''levelComplete'' \<and>
   gs_currentState (GameState_setGameState 0 ''LevelComplete'' GameState_new) = ''LevelComplete'' \<and>
   gs_currentState (GameState_setGameState 0 ''LevelComplete'' GameState_new) \<noteq> ''levelComplete'' \<and>
   GameState_setGameState 0 ''LevelComplete'' GameState_new =
     GameState_new\<lparr> gs_currentState := ''LevelComplete'' \<rparr> \<and>
   gs_timeScaleTarget (GameState_setGameState 0 ''LevelComplete'' GameState_new) = 1 \<and>
   gs_timeScaleTarget (GameState_setGameState 0 ''levelComplete'' GameState_new) = 0"
  by (simp add: states_def caseVariant_def sameLetter_def letterPairs_def
        GameState_setGameState_def GameState_handleStateChange_def GameState_new_def
        toUpperCase_def toUpperCase_char_def)

end
